theory Spec2Isabelle
  imports Complex_Main
begin

section \<open>Data model of the frontend (src/frontend/src/lib/api.ts)\<close>

text \<open>
  The TypeScript interfaces become records. A JavaScript \<^verbatim>\<open>number\<close> that carries an
  identifier or a count is an \<^typ>\<open>int\<close>; the score fields of an analysis are \<^typ>\<open>rat\<close>,
  exact where JavaScript has doubles. An optional field (\<^verbatim>\<open>f?: T\<close>) is an
  \<^typ>\<open>'a option\<close>, with \<^term>\<open>None\<close> for \<^verbatim>\<open>undefined\<close>. Every interface has a field
  \<^verbatim>\<open>id\<close>; record fields are global constants, so each is named after its record, as are
  \<^verbatim>\<open>description\<close> of a category and \<^verbatim>\<open>article\<close> of an analysis.
\<close>

record UserProfile =
  bio :: string
  avatar :: "string option"
  location :: string
  website :: "string option"
  email_notifications :: bool
  total_analyses_created :: int
  last_analysis_date :: "string option"

record User =
  user_id :: int
  username :: string
  first_name :: string
  last_name :: string
  email :: string
  profile :: UserProfile

record NewsArticle =
  article_id :: int
  title :: string
  description :: string
  content :: "string option"
  url :: string
  url_to_image :: "string option"
  author :: "string option"
  source_name :: string
  category_name :: "string option"
  category_slug :: "string option"
  published_at :: string
  has_analysis :: bool

record NewsCategory =
  category_id :: int
  name :: string
  slug :: string
  category_description :: string
  article_count :: int

record SentimentAnalysis =
  analysis_id :: int
  analysis_article :: NewsArticle
  political_bias :: string
  bias_confidence_score :: rat
  bias_reasoning :: string
  positive_sentiment :: rat
  negative_sentiment :: rat
  neutral_sentiment :: rat
  overall_sentiment_score :: rat
  primary_topics :: "string list"
  topic_distribution :: "(string \<times> rat) list"
  key_themes :: "string list"
  emotional_tone :: string
  controversy_level :: rat
  bias_score_normalized :: rat
  created_at :: string

text \<open>Values that travel in request bodies and query parameters.\<close>

datatype jsval = Undefined | Num int | Str string | Obj "(string \<times> jsval) list"

fun field :: "jsval \<Rightarrow> string \<Rightarrow> jsval" where
  "field (Obj kvs) k = (case map_of kvs k of None \<Rightarrow> Undefined | Some v \<Rightarrow> v)"
| "field _ k = Undefined"

definition opt_str :: "string option \<Rightarrow> jsval" where
  "opt_str s = (case s of None \<Rightarrow> Undefined | Some x \<Rightarrow> Str x)"

text \<open>\<^verbatim>\<open>x || d\<close> on an optional number: \<^verbatim>\<open>undefined\<close> and \<^verbatim>\<open>0\<close> are falsy.\<close>

definition or_default :: "int option \<Rightarrow> int \<Rightarrow> int" where
  "or_default x d = (case x of None \<Rightarrow> d | Some n \<Rightarrow> if n = 0 then d else n)"

text \<open>
  A URL is a template literal, kept as its parts: literal text and interpolated numbers
  (\<^verbatim>\<open>${id}\<close>). How JavaScript prints the number is not modelled.
\<close>

datatype template_part = Lit string | Interp int

section \<open>The axios instance\<close>

definition API_BASE_URL :: string where
  "API_BASE_URL = ''http://localhost:8000/api''"

record AxiosDefaults =
  baseURL :: string
  timeout :: nat
  withCredentials :: bool
  headers :: "string \<rightharpoonup> string"

text \<open>\<^verbatim>\<open>axios.create({baseURL, timeout: 120000, withCredentials: true, headers})\<close>\<close>

definition apiClient :: AxiosDefaults where
  "apiClient = \<lparr> baseURL = API_BASE_URL, timeout = 120000, withCredentials = True,
     headers = [''Content-Type'' \<mapsto> ''application/json''] \<rparr>"

text \<open>
  The optional per-request config argument of \<^verbatim>\<open>get\<close>, \<^verbatim>\<open>post\<close> and \<^verbatim>\<open>patch\<close>. A key that
  the caller leaves out is \<^term>\<open>None\<close> and the instance default applies; a key that the
  caller gives overrides the default (axios merges the request config over the defaults).
\<close>

record RequestConfig =
  cfg_params :: jsval
  cfg_timeout :: "nat option"
  cfg_withCredentials :: "bool option"
  cfg_headers :: "string \<rightharpoonup> string"

definition no_config :: RequestConfig where
  "no_config = \<lparr> cfg_params = Undefined, cfg_timeout = None, cfg_withCredentials = None,
     cfg_headers = Map.empty \<rparr>"

definition with_params :: "jsval \<Rightarrow> RequestConfig" where
  "with_params p = no_config \<lparr> cfg_params := p \<rparr>"

datatype http_verb = GET | POST | PATCH

record Request =
  req_verb :: http_verb
  req_url :: "template_part list"
  req_baseURL :: string
  req_data :: jsval
  req_params :: jsval
  req_timeout :: nat
  req_withCredentials :: bool
  req_headers :: "string \<rightharpoonup> string"

definition mergeConfig :: "AxiosDefaults \<Rightarrow> http_verb \<Rightarrow> template_part list \<Rightarrow> jsval \<Rightarrow> RequestConfig \<Rightarrow> Request" where
  "mergeConfig d v u body cfg =
     \<lparr> req_verb = v, req_url = u, req_baseURL = baseURL d, req_data = body,
       req_params = cfg_params cfg,
       req_timeout = (case cfg_timeout cfg of None \<Rightarrow> timeout d | Some t \<Rightarrow> t),
       req_withCredentials = (case cfg_withCredentials cfg of None \<Rightarrow> withCredentials d | Some w \<Rightarrow> w),
       req_headers = headers d ++ cfg_headers cfg \<rparr>"

definition apiClient_get :: "template_part list \<Rightarrow> RequestConfig \<Rightarrow> Request" where
  "apiClient_get u cfg = mergeConfig apiClient GET u Undefined cfg"

definition apiClient_post :: "template_part list \<Rightarrow> jsval \<Rightarrow> Request" where
  "apiClient_post u body = mergeConfig apiClient POST u body no_config"

definition apiClient_patch :: "template_part list \<Rightarrow> jsval \<Rightarrow> Request" where
  "apiClient_patch u body = mergeConfig apiClient PATCH u body no_config"

subsection \<open>authAPI\<close>

definition authAPI_login :: "string \<Rightarrow> string \<Rightarrow> Request" where
  "authAPI_login u p =
     apiClient_post [Lit ''/auth/login/''] (Obj [(''username'', Str u), (''password'', Str p)])"

definition authAPI_register :: "jsval \<Rightarrow> Request" where
  "authAPI_register userData = apiClient_post [Lit ''/auth/register/''] userData"

definition authAPI_logout :: Request where
  "authAPI_logout = apiClient_post [Lit ''/auth/logout/''] Undefined"

definition authAPI_getCurrentUser :: Request where
  "authAPI_getCurrentUser = apiClient_get [Lit ''/auth/user/''] no_config"

definition authAPI_getDashboard :: Request where
  "authAPI_getDashboard = apiClient_get [Lit ''/auth/dashboard/''] no_config"

subsection \<open>newsAPI\<close>

definition newsAPI_getArticles :: "jsval \<Rightarrow> Request" where
  "newsAPI_getArticles params = apiClient_get [Lit ''/news/articles/''] (with_params params)"

definition newsAPI_getArticle :: "int \<Rightarrow> Request" where
  "newsAPI_getArticle i = apiClient_get [Lit ''/news/articles/'', Interp i, Lit ''/''] no_config"

definition newsAPI_getCategories :: Request where
  "newsAPI_getCategories = apiClient_get [Lit ''/news/categories/''] no_config"

definition newsAPI_getCategoriesWithCounts :: Request where
  "newsAPI_getCategoriesWithCounts =
     apiClient_get [Lit ''/news/articles/categories_with_counts/''] no_config"

definition newsAPI_getTrending :: Request where
  "newsAPI_getTrending = apiClient_get [Lit ''/news/articles/trending/''] no_config"

definition newsAPI_markAsRead :: "int \<Rightarrow> Request" where
  "newsAPI_markAsRead articleId =
     apiClient_post [Lit ''/news/articles/'', Interp articleId, Lit ''/mark_as_read/''] Undefined"

definition newsAPI_fetchLatest :: "string option \<Rightarrow> int option \<Rightarrow> Request" where
  "newsAPI_fetchLatest category max_articles =
     apiClient_post [Lit ''/news/articles/fetch_latest/'']
       (Obj [(''category'', opt_str category),
             (''max_articles'', Num (or_default max_articles 50))])"

subsection \<open>analysisAPI\<close>

definition analysisAPI_getAnalyses :: "jsval \<Rightarrow> Request" where
  "analysisAPI_getAnalyses params = apiClient_get [Lit ''/analysis/analyses/''] (with_params params)"

definition analysisAPI_getAnalysis :: "int \<Rightarrow> Request" where
  "analysisAPI_getAnalysis i =
     apiClient_get [Lit ''/analysis/analyses/'', Interp i, Lit ''/''] no_config"

definition analysisAPI_analyzeArticle :: "int \<Rightarrow> Request" where
  "analysisAPI_analyzeArticle articleId =
     apiClient_post [Lit ''/analysis/analyses/analyze_article/''] (Obj [(''article_id'', Num articleId)])"

definition analysisAPI_getStats :: Request where
  "analysisAPI_getStats = apiClient_get [Lit ''/analysis/analyses/stats/''] no_config"

definition analysisAPI_getTrendingTopics :: "int option \<Rightarrow> Request" where
  "analysisAPI_getTrendingTopics days =
     apiClient_get [Lit ''/analysis/analyses/trending_topics/'']
       (with_params (Obj [(''days'', Num (or_default days 7))]))"

definition analysisAPI_getRecent :: Request where
  "analysisAPI_getRecent = apiClient_get [Lit ''/analysis/analyses/recent/''] no_config"

definition analysisAPI_getControversial :: Request where
  "analysisAPI_getControversial = apiClient_get [Lit ''/analysis/analyses/controversial/''] no_config"

subsection \<open>profileAPI\<close>

definition profileAPI_getProfile :: Request where
  "profileAPI_getProfile = apiClient_get [Lit ''/auth/profile/''] no_config"

definition profileAPI_updateProfile :: "jsval \<Rightarrow> Request" where
  "profileAPI_updateProfile d = apiClient_patch [Lit ''/auth/profile/''] d"

definition profileAPI_getStats :: Request where
  "profileAPI_getStats = apiClient_get [Lit ''/auth/profile/stats/''] no_config"

definition profileAPI_changePassword :: "jsval \<Rightarrow> Request" where
  "profileAPI_changePassword d = apiClient_post [Lit ''/auth/profile/change_password/''] d"

subsection \<open>Every method of the four API objects\<close>

datatype api_call =
    Login string string
  | Register jsval
  | Logout
  | GetCurrentUser
  | GetDashboard
  | GetArticles jsval
  | GetArticle int
  | GetCategories
  | GetCategoriesWithCounts
  | GetTrending
  | MarkAsRead int
  | FetchLatest "string option" "int option"
  | GetAnalyses jsval
  | GetAnalysis int
  | AnalyzeArticle int
  | GetAnalysisStats
  | GetTrendingTopics "int option"
  | GetRecent
  | GetControversial
  | GetProfile
  | UpdateProfile jsval
  | GetProfileStats
  | ChangePassword jsval

fun issue :: "api_call \<Rightarrow> Request" where
  "issue (Login u p) = authAPI_login u p"
| "issue (Register d) = authAPI_register d"
| "issue Logout = authAPI_logout"
| "issue GetCurrentUser = authAPI_getCurrentUser"
| "issue GetDashboard = authAPI_getDashboard"
| "issue (GetArticles p) = newsAPI_getArticles p"
| "issue (GetArticle i) = newsAPI_getArticle i"
| "issue GetCategories = newsAPI_getCategories"
| "issue GetCategoriesWithCounts = newsAPI_getCategoriesWithCounts"
| "issue GetTrending = newsAPI_getTrending"
| "issue (MarkAsRead i) = newsAPI_markAsRead i"
| "issue (FetchLatest c m) = newsAPI_fetchLatest c m"
| "issue (GetAnalyses p) = analysisAPI_getAnalyses p"
| "issue (GetAnalysis i) = analysisAPI_getAnalysis i"
| "issue (AnalyzeArticle i) = analysisAPI_analyzeArticle i"
| "issue GetAnalysisStats = analysisAPI_getStats"
| "issue (GetTrendingTopics d) = analysisAPI_getTrendingTopics d"
| "issue GetRecent = analysisAPI_getRecent"
| "issue GetControversial = analysisAPI_getControversial"
| "issue GetProfile = profileAPI_getProfile"
| "issue (UpdateProfile d) = profileAPI_updateProfile d"
| "issue GetProfileStats = profileAPI_getStats"
| "issue (ChangePassword d) = profileAPI_changePassword d"

section \<open>The request interceptor\<close>

text \<open>
  \<^verbatim>\<open>s.startsWith(p)\<close>, \<^verbatim>\<open>s.split(sep)\<close> and an array read \<^verbatim>\<open>xs[i]\<close>, which is
  \<^verbatim>\<open>undefined\<close> out of range.
\<close>

definition startsWith :: "string \<Rightarrow> string \<Rightarrow> bool" where
  "startsWith s p = (take (length p) s = p)"

function split_from :: "string \<Rightarrow> string \<Rightarrow> string list" where
  "split_from sep [] = [[]]"
| "split_from sep (c # cs) =
     (if sep \<noteq> [] \<and> startsWith (c # cs) sep
      then [] # split_from sep (drop (length sep) (c # cs))
      else (case split_from sep cs of
              [] \<Rightarrow> [[c]]
            | w # ws \<Rightarrow> (c # w) # ws))"
  by pat_completeness auto
termination
  by (relation "measure (\<lambda>(sep, s). length s)") auto

definition split_js :: "string \<Rightarrow> string \<Rightarrow> string list" where
  "split_js s sep = (if sep = [] then map (\<lambda>c. [c]) s else split_from sep s)"

definition nth_opt :: "'a list \<Rightarrow> nat \<Rightarrow> 'a option" where
  "nth_opt xs i = (if i < length xs then Some (xs ! i) else None)"

text \<open>
  \<^verbatim>\<open>document.cookie.split('; ').find(row => row.startsWith('csrftoken='))?.split('=')[1]\<close>
\<close>

definition csrfToken :: "string \<Rightarrow> string option" where
  "csrfToken cookie =
     (case find (\<lambda>row. startsWith row ''csrftoken='') (split_js cookie ''; '') of
        None \<Rightarrow> None
      | Some row \<Rightarrow> nth_opt (split_js row ''='') 1)"

text \<open>\<^verbatim>\<open>if (csrfToken) config.headers['X-CSRFToken'] = csrfToken\<close>: the empty string is falsy.\<close>

definition request_interceptor :: "string \<Rightarrow> Request \<Rightarrow> Request" where
  "request_interceptor cookie config =
     (case csrfToken cookie of
        None \<Rightarrow> config
      | Some t \<Rightarrow>
          if t \<noteq> [] then config \<lparr> req_headers := (req_headers config)(''X-CSRFToken'' \<mapsto> t) \<rparr>
          else config)"

text \<open>What leaves the browser for a call, given the value of \<^verbatim>\<open>document.cookie\<close>.\<close>

definition send :: "string \<Rightarrow> api_call \<Rightarrow> Request" where
  "send cookie c = request_interceptor cookie (issue c)"

subsection \<open>The browser's cookie string\<close>

text \<open>
  \<^verbatim>\<open>document.cookie\<close> is the browser's rendering of the cookies visible to the page,
  joined by \<^verbatim>\<open>'; '\<close> (\<^verbatim>\<open>Array.prototype.join\<close>): a cookie with a name is rendered
  \<^verbatim>\<open>name=value\<close>, a cookie with the empty name is rendered as its bare value. A cookie
  name holds neither \<^verbatim>\<open>;\<close> nor \<^verbatim>\<open>=\<close>, and a cookie value holds no \<^verbatim>\<open>;\<close>; the jars
  considered hold no nameless cookie whose value has an \<^verbatim>\<open>=\<close> (such a value would
  read as a named cookie). When a name occurs twice, the first pair is the one that
  \<^verbatim>\<open>find\<close> meets, and \<^term>\<open>map_of\<close> finds.
\<close>

fun join_js :: "string list \<Rightarrow> string \<Rightarrow> string" where
  "join_js [] sep = []"
| "join_js [x] sep = x"
| "join_js (x # y # ys) sep = x @ sep @ join_js (y # ys) sep"

definition render_cookie :: "string \<times> string \<Rightarrow> string" where
  "render_cookie p = (if fst p = [] then snd p else fst p @ ''='' @ snd p)"

definition document_cookie :: "(string \<times> string) list \<Rightarrow> string" where
  "document_cookie jar = join_js (map render_cookie jar) ''; ''"

definition wf_cookie :: "string \<times> string \<Rightarrow> bool" where
  "wf_cookie p =
     (CHR '';'' \<notin> set (fst p) \<and> CHR ''='' \<notin> set (fst p) \<and> CHR '';'' \<notin> set (snd p) \<and>
      (fst p \<noteq> [] \<or> CHR ''='' \<notin> set (snd p)))"

definition wf_jar :: "(string \<times> string) list \<Rightarrow> bool" where
  "wf_jar jar = list_all wf_cookie jar"

text \<open>The value of the first csrftoken cookie, if there is one, holds no \<^verbatim>\<open>=\<close>.\<close>

definition token_without_equals :: "(string \<times> string) list \<Rightarrow> bool" where
  "token_without_equals jar =
     (case map_of jar ''csrftoken'' of None \<Rightarrow> True | Some v \<Rightarrow> CHR ''='' \<notin> set v)"

section \<open>The response interceptor\<close>

text \<open>
  An axios error carries the response it was built from, when there was one:
  \<^verbatim>\<open>error.response?.status\<close> is \<^term>\<open>None\<close> for a timeout or a network failure. A promise
  of the client settles to a rejection with such an error or to a response, of which the
  callers read \<^verbatim>\<open>data\<close> only.
\<close>

record AxiosError =
  err_message :: string
  response_status :: "int option"

datatype 'a settled = Rejected AxiosError | Resolved 'a

text \<open>
  What the page can reach of the browser: \<^verbatim>\<open>localStorage\<close>, the address assigned to
  \<^verbatim>\<open>window.location.href\<close>, the lines written with \<^verbatim>\<open>console.error\<close>, and the calls
  made through the client so far, oldest first.
\<close>

record Browser =
  localStorage :: "string \<rightharpoonup> string"
  location_href :: string
  console :: "string list"
  network :: "api_call list"

definition removeItem :: "string \<Rightarrow> Browser \<Rightarrow> Browser" where
  "removeItem k b = b \<lparr> localStorage := (localStorage b)(k := None) \<rparr>"

definition console_error :: "string \<Rightarrow> Browser \<Rightarrow> Browser" where
  "console_error line b = b \<lparr> console := console b @ [line] \<rparr>"

definition response_interceptor :: "'a settled \<Rightarrow> Browser \<Rightarrow> Browser \<times> 'a settled" where
  "response_interceptor r b =
     (case r of
        Resolved response \<Rightarrow> (b, Resolved response)
      | Rejected e \<Rightarrow>
          (if response_status e = Some 401
           then (removeItem ''user'' b) \<lparr> location_href := ''/login'' \<rparr>
           else b,
           Rejected e))"

text \<open>
  A call through the client: the request leaves, the network settles it to \<open>raw\<close>, and the
  response interceptor runs before the caller's \<^verbatim>\<open>await\<close> continues.
\<close>

definition apiClient_request :: "api_call \<Rightarrow> 'a settled \<Rightarrow> Browser \<Rightarrow> Browser \<times> 'a settled" where
  "apiClient_request c raw b = response_interceptor raw (b \<lparr> network := network b @ [c] \<rparr>)"

text \<open>The \<^verbatim>\<open>Route\<close> elements of the application's \<^verbatim>\<open>Routes\<close>: one, with \<^verbatim>\<open>path="/"\<close>.\<close>

definition routes :: "string list" where
  "routes = [''/'']"

section \<open>AuthProvider (src/frontend/src/contexts/AuthContext.tsx)\<close>

record AuthState =
  user :: "User option"
  auth_isLoading :: bool

definition isAuthenticated :: "AuthState \<Rightarrow> bool" where
  "isAuthenticated s = (user s \<noteq> None)"

text \<open>
  \<^verbatim>\<open>logout\<close>: the \<^verbatim>\<open>catch\<close> logs and swallows a rejection of \<^verbatim>\<open>authAPI.logout()\<close>, the
  \<^verbatim>\<open>finally\<close> clears the user and the stored entry. The second component is what the
  promise returned by \<^verbatim>\<open>logout()\<close> settles to.
\<close>

definition logout :: "unit settled \<Rightarrow> AuthState \<times> Browser \<Rightarrow> (AuthState \<times> Browser) \<times> unit settled" where
  "logout raw sb =
     (case sb of (s, b) \<Rightarrow>
        (case apiClient_request Logout raw b of (b1, r) \<Rightarrow>
           (let b2 = (case r of
                        Rejected e \<Rightarrow> console_error ''Logout error:'' b1
                      | Resolved response \<Rightarrow> b1)
            in ((s \<lparr> user := None \<rparr>, removeItem ''user'' b2), Resolved ()))))"

section \<open>AppContent: the state and its handlers\<close>

record AppState =
  articles :: "NewsArticle list"
  categories :: "NewsCategory list"
  selectedAnalysis :: "SentimentAnalysis option"
  isLoading :: bool
  isFetchingNews :: bool
  isAnalyzing :: bool
  analyzingArticleId :: "int option"
  error :: "string option"
  selectedCategory :: "string option"
  isAuthModalOpen :: bool

text \<open>
  The bodies the handlers read. \<^verbatim>\<open>response.data\<close> is an \<^typ>\<open>'a option\<close>: \<^term>\<open>None\<close> is
  a body of \<^verbatim>\<open>null\<close>, on which reading a property throws a TypeError inside the
  handler's \<^verbatim>\<open>try\<close>. A property that the body lacks reads as \<^verbatim>\<open>undefined\<close>, again
  \<^term>\<open>None\<close>. The article list comes paginated (\<^verbatim>\<open>{results: [...]}\<close>) or as a plain array.
\<close>

record AnalyzeData =
  analysis :: "SentimentAnalysis option"


datatype ArticlesData = Paginated "NewsArticle list" | Plain "NewsArticle list"

text \<open>\<^verbatim>\<open>articlesResponse.data.results || articlesResponse.data\<close>: an array is truthy.\<close>

fun articles_of :: "ArticlesData \<Rightarrow> NewsArticle list" where
  "articles_of (Paginated results) = results"
| "articles_of (Plain xs) = xs"

text \<open>\<^verbatim>\<open>loadInitialData\<close>: both requests leave before \<^verbatim>\<open>Promise.all\<close> is awaited.\<close>

definition loadInitialData_catch :: "AppState \<times> Browser \<Rightarrow> AppState \<times> Browser" where
  "loadInitialData_catch sb =
     (case sb of (st, b) \<Rightarrow>
        (st \<lparr> error := Some ''Failed to load news data. Please try again.'' \<rparr>,
         console_error ''Error loading initial data:'' b))"

definition loadInitialData ::
  "ArticlesData option settled \<Rightarrow> NewsCategory list option settled \<Rightarrow>
   AppState \<times> Browser \<Rightarrow> AppState \<times> Browser" where
  "loadInitialData rawArticles rawCategories sb =
     (case sb of (st, b) \<Rightarrow>
        (let st1 = st \<lparr> isLoading := True, error := None \<rparr> in
         case apiClient_request (GetArticles (Obj [(''page_size'', Num 20)])) rawArticles b of
           (b1, articlesResponse) \<Rightarrow>
         case apiClient_request GetCategoriesWithCounts rawCategories b1 of
           (b2, categoriesResponse) \<Rightarrow>
         case (case articlesResponse of
                 Rejected e \<Rightarrow> loadInitialData_catch (st1, b2)
               | Resolved adata \<Rightarrow>
                   (case categoriesResponse of
                      Rejected e \<Rightarrow> loadInitialData_catch (st1, b2)
                    | Resolved cdata \<Rightarrow>
                        (case adata of
                           None \<Rightarrow> loadInitialData_catch (st1, b2)
                         | Some a \<Rightarrow>
                             (st1 \<lparr> articles := articles_of a,
                                    categories := (case cdata of None \<Rightarrow> [] | Some cs \<Rightarrow> cs) \<rparr>,
                              b2)))) of
           (st2, b3) \<Rightarrow> (st2 \<lparr> isLoading := False \<rparr>, b3)))"

text \<open>
  \<^verbatim>\<open>handleAnalyzeArticle\<close>. The functional update of \<^verbatim>\<open>setArticles\<close> maps over the list
  that is current when the response arrives; the handler is modelled with no other
  handler running between its request and the settlement.
\<close>

definition mark_analyzed :: "NewsArticle \<Rightarrow> NewsArticle list \<Rightarrow> NewsArticle list" where
  "mark_analyzed article prev =
     map (\<lambda>a. if article_id a = article_id article then a \<lparr> has_analysis := True \<rparr> else a) prev"

definition handleAnalyzeArticle_catch :: "AppState \<times> Browser \<Rightarrow> AppState \<times> Browser" where
  "handleAnalyzeArticle_catch sb =
     (case sb of (st, b) \<Rightarrow>
        (st \<lparr> error := Some ''Failed to analyze article. Please try again.'' \<rparr>,
         console_error ''Error analyzing article:'' b))"

definition handleAnalyzeArticle ::
  "User option \<Rightarrow> NewsArticle \<Rightarrow> AnalyzeData option settled \<Rightarrow>
   AppState \<times> Browser \<Rightarrow> AppState \<times> Browser" where
  "handleAnalyzeArticle usr article raw sb =
     (case sb of (st, b) \<Rightarrow>
        if usr = None then (st \<lparr> isAuthModalOpen := True \<rparr>, b)
        else
          (let st1 = st \<lparr> isAnalyzing := True, analyzingArticleId := Some (article_id article),
                          error := None \<rparr> in
           case apiClient_request (AnalyzeArticle (article_id article)) raw b of
             (b1, response) \<Rightarrow>
           case (case response of
                   Rejected e \<Rightarrow> handleAnalyzeArticle_catch (st1, b1)
                 | Resolved rdata \<Rightarrow>
                     (case rdata of
                        None \<Rightarrow> handleAnalyzeArticle_catch (st1, b1)
                      | Some d \<Rightarrow>
                          (st1 \<lparr> selectedAnalysis := analysis d,
                                 articles := mark_analyzed article (articles st1) \<rparr>,
                           b1))) of
             (st2, b2) \<Rightarrow> (st2 \<lparr> isAnalyzing := False, analyzingArticleId := None \<rparr>, b2)))"




section \<open>AnalysisDashboard: the sentiment breakdown\<close>








text \<open>
  A failed request, as its handler meets it: the awaited promise rejects, or it resolves
  with a body of \<^verbatim>\<open>null\<close> and reading the body throws inside the \<^verbatim>\<open>try\<close>.
\<close>

definition failed_request :: "'a option settled \<Rightarrow> bool" where
  "failed_request raw = (case raw of Rejected e \<Rightarrow> True | Resolved d \<Rightarrow> d = None)"

section \<open>Ingestion (backend), from the specification\<close>

text \<open>
  Modelled from the spec: an item as the News Provider returns it, with the fields an
  Article is built from (section 3) and the category it was fetched under. The backend's
  models and services are not among the sources.
\<close>

record ProviderItem =
  item_title :: string
  item_description :: string
  item_body :: string
  item_url :: string
  item_image_url :: "string option"
  item_author :: "string option"
  item_source :: string
  item_category :: string
  item_published_at :: string

text \<open>
  Modelled from the spec: an Article row (title, description, body, canonical URL, image
  URL, author, source and category references, publication timestamp) and the storage that
  holds the Article, Source and Category tables; references are held by name.
\<close>

record ArticleRow =
  row_title :: string
  row_description :: string
  row_body :: string
  row_url :: string
  row_image_url :: "string option"
  row_author :: "string option"
  row_source :: string
  row_category :: string
  row_published_at :: string

record Storage =
  article_rows :: "ArticleRow list"
  source_rows :: "string list"
  category_rows :: "string list"

text \<open>
  Modelled from the spec: the provider's failure modes (key missing or invalid, rate limit
  exceeded, network failure), and the provider itself: asked for a category and a maximum count, it fails or
  returns items.
\<close>

datatype provider_error = MissingOrInvalidKey | RateLimitExceeded | NetworkFailure

type_synonym provider = "string option \<Rightarrow> nat \<Rightarrow> provider_error + ProviderItem list"

text \<open>
  Modelled from the spec: "resolve or create its Source and Category", by name; a row is
  created when the name is first seen.
\<close>

definition resolve_or_create :: "string \<Rightarrow> string list \<Rightarrow> string list" where
  "resolve_or_create n xs = (if n \<in> set xs then xs else xs @ [n])"

text \<open>
  Modelled from the spec: the dedup check, "an article with the same canonical URL already
  exists"; the backend's query is not among the sources.
\<close>

definition url_exists :: "string \<Rightarrow> Storage \<Rightarrow> bool" where
  "url_exists u s = (u \<in> set (map row_url (article_rows s)))"

text \<open>Modelled from the spec: the Article row built from an item.\<close>

definition row_of :: "ProviderItem \<Rightarrow> ArticleRow" where
  "row_of it = \<lparr> row_title = item_title it, row_description = item_description it,
     row_body = item_body it, row_url = item_url it, row_image_url = item_image_url it,
     row_author = item_author it, row_source = item_source it,
     row_category = item_category it, row_published_at = item_published_at it \<rparr>"

text \<open>
  Modelled from the spec: the per-item step of Ingestion, whose code (the backend's news
  service) is not among the sources. For a returned item: resolve or create its Source and
  Category, and insert it unless an article with the same canonical URL already exists.
  The second component counts the newly created rows.
\<close>

definition ingest_item :: "ProviderItem \<Rightarrow> Storage \<times> nat \<Rightarrow> Storage \<times> nat" where
  "ingest_item it sn =
     (case sn of (s, created) \<Rightarrow>
        (let s1 = s \<lparr> source_rows := resolve_or_create (item_source it) (source_rows s),
                      category_rows := resolve_or_create (item_category it) (category_rows s) \<rparr>
         in if url_exists (item_url it) s1 then (s1, created)
            else (s1 \<lparr> article_rows := article_rows s1 @ [row_of it] \<rparr>, created + 1)))"

text \<open>
  Modelled from the spec: Ingestion over the items that one provider call returned, in
  order, counting from zero. The backend's loop is not among the sources.
\<close>

definition store_items :: "ProviderItem list \<Rightarrow> Storage \<Rightarrow> Storage \<times> nat" where
  "store_items items s = fold ingest_item items (s, 0)"

text \<open>
  Modelled from the spec: the Ingestion contract. Given an optional category and a maximum
  article count, call the provider; a provider failure is the single reported error and
  storage is not touched; otherwise store the items and return the count of newly created
  rows. The backend's \<^verbatim>\<open>fetch_and_store_articles\<close> is not among the sources.
\<close>

definition ingestion :: "provider \<Rightarrow> string option \<Rightarrow> nat \<Rightarrow> Storage \<Rightarrow> provider_error + Storage \<times> nat" where
  "ingestion provider category max_articles s =
     (case provider category max_articles of
        Inl e \<Rightarrow> Inl e
      | Inr items \<Rightarrow> Inr (store_items items s))"

text \<open>Modelled from the spec: the canonical URLs of the stored articles, in row order.\<close>

definition urls :: "Storage \<Rightarrow> string list" where
  "urls s = map row_url (article_rows s)"

text \<open>
  Modelled from the spec: the storages that normal operation can reach. Setup seeds the
  Category rows; Articles are written by Ingestion only and never updated or deleted
  (section 3, Lifecycle). So storage is one that holds no article yet, whatever Categories
  and Sources setup left in it, or the result of a successful run on a storage reached
  before.
\<close>

inductive reachable :: "Storage \<Rightarrow> bool" where
  initial: "article_rows s = [] \<Longrightarrow> reachable s"
| run: "reachable s \<Longrightarrow> ingestion provider category max_articles s = Inr (s', created) \<Longrightarrow>
        reachable s'"

section \<open>Analysis (backend), from the specification\<close>

text \<open>
  Modelled from the spec: the structured JSON object that the LLM API is asked for
  (section 4.2: bias classification, confidence and reasoning; sentiment triple, overall
  score and tone; topic list and distribution; themes; controversy level), and its answer:
  malformed or schema-violating, or conforming, each with the raw text. The backend's
  analysis service is not among the sources.
\<close>

record LlmResult =
  llm_bias_label :: string
  llm_bias_confidence :: rat
  llm_reasoning :: string
  llm_positive :: rat
  llm_negative :: rat
  llm_neutral :: rat
  llm_overall_score :: rat
  llm_tone :: string
  llm_topics :: "string list"
  llm_topic_weights :: "(string \<times> rat) list"
  llm_themes :: "string list"
  llm_controversy :: rat

datatype llm_response = Malformed string | Conforming string LlmResult

text \<open>
  Modelled from the spec: the prompt embeds the article's title, description and body; its
  fixed wording is configuration and is left out.
\<close>

record Prompt =
  prompt_title :: string
  prompt_description :: string
  prompt_body :: string

definition build_prompt :: "ArticleRow \<Rightarrow> Prompt" where
  "build_prompt art = \<lparr> prompt_title = row_title art, prompt_description = row_description art,
     prompt_body = row_body art \<rparr>"

text \<open>
  Modelled from the spec: an Analysis row (section 3), belonging to one user and one
  article, the article referred to by its canonical URL; the row keeps what was parsed,
  the raw response and the creation time.
\<close>

record AnalysisRow =
  an_user :: int
  an_article_url :: string
  an_bias_label :: string
  an_bias_confidence :: rat
  an_reasoning :: string
  an_positive :: rat
  an_negative :: rat
  an_neutral :: rat
  an_overall_score :: rat
  an_topics :: "string list"
  an_topic_weights :: "(string \<times> rat) list"
  an_themes :: "string list"
  an_controversy :: rat
  an_tone :: string
  an_raw_response :: string
  an_created_at :: string

definition row_of_result :: "int \<Rightarrow> ArticleRow \<Rightarrow> string \<Rightarrow> string \<Rightarrow> LlmResult \<Rightarrow> AnalysisRow" where
  "row_of_result usr art now raw r =
     \<lparr> an_user = usr, an_article_url = row_url art, an_bias_label = llm_bias_label r,
       an_bias_confidence = llm_bias_confidence r, an_reasoning = llm_reasoning r,
       an_positive = llm_positive r, an_negative = llm_negative r, an_neutral = llm_neutral r,
       an_overall_score = llm_overall_score r, an_topics = llm_topics r,
       an_topic_weights = llm_topic_weights r, an_themes = llm_themes r,
       an_controversy = llm_controversy r, an_tone = llm_tone r, an_raw_response = raw,
       an_created_at = now \<rparr>"

text \<open>
  Modelled from the spec: the Analysis contract (section 4.2). Check for an existing
  analysis of the (user, article) pair; if absent, call the LLM API with the prompt; a
  malformed or schema-violating response is a hard failure of that call and nothing is
  stored; otherwise parse and persist the result. The sentiment sum is not recomputed.
\<close>

datatype analysis_error = HardFailure

definition analyze ::
  "(Prompt \<Rightarrow> llm_response) \<Rightarrow> string \<Rightarrow> int \<Rightarrow> ArticleRow \<Rightarrow> AnalysisRow list \<Rightarrow>
   analysis_error + AnalysisRow list \<times> AnalysisRow" where
  "analyze llm now usr art store =
     (case find (\<lambda>r. an_user r = usr \<and> an_article_url r = row_url art) store of
        Some existing \<Rightarrow> Inr (store, existing)
      | None \<Rightarrow>
          (case llm (build_prompt art) of
             Malformed raw \<Rightarrow> Inl HardFailure
           | Conforming raw r \<Rightarrow>
               (let row = row_of_result usr art now raw r in Inr (store @ [row], row))))"




section \<open>Sample values\<close>

definition b0 :: Browser where
  "b0 = \<lparr> localStorage = [''user'' \<mapsto> ''{}''], location_href = ''/'', console = [], network = [] \<rparr>"

definition u0 :: User where
  "u0 = \<lparr> user_id = 1, username = ''demo_user'', first_name = ''Demo'', last_name = ''User'',
     email = ''demo@example.com'',
     profile = \<lparr> bio = [], avatar = None, location = [], website = None,
       email_notifications = True, total_analyses_created = 0, last_analysis_date = None \<rparr> \<rparr>"

definition sample_article :: "int \<Rightarrow> string \<Rightarrow> NewsArticle" where
  "sample_article i u = \<lparr> article_id = i, title = ''Headline'', description = ''Summary'',
     content = None, url = u, url_to_image = None, author = None, source_name = ''Wire'',
     category_name = Some ''Politics'', category_slug = Some ''politics'',
     published_at = ''2025-01-01T00:00:00Z'', has_analysis = False \<rparr>"

definition sample_analysis :: SentimentAnalysis where
  "sample_analysis = \<lparr> analysis_id = 9, analysis_article = sample_article 1 ''https://a.example/1'',
     political_bias = ''center'', bias_confidence_score = 4 / 5, bias_reasoning = ''Balanced'',
     positive_sentiment = 1 / 2, negative_sentiment = 1 / 5, neutral_sentiment = 3 / 10,
     overall_sentiment_score = 3 / 10, primary_topics = [''economy''],
     topic_distribution = [(''economy'', 1)], key_themes = [''growth''],
     emotional_tone = ''measured'', controversy_level = 1 / 10, bias_score_normalized = 0,
     created_at = ''2025-01-02T00:00:00Z'' \<rparr>"

definition st0 :: AppState where
  "st0 = \<lparr> articles = [sample_article 1 ''https://a.example/1'', sample_article 2 ''https://a.example/2''],
     categories = [], selectedAnalysis = None, isLoading = False, isFetchingNews = False,
     isAnalyzing = False, analyzingArticleId = None, error = None, selectedCategory = None,
     isAuthModalOpen = False \<rparr>"

definition server_error :: AxiosError where
  "server_error = \<lparr> err_message = ''Request failed with status code 500'', response_status = Some 500 \<rparr>"

definition unauthorized :: AxiosError where
  "unauthorized = \<lparr> err_message = ''Request failed with status code 401'', response_status = Some 401 \<rparr>"

definition sample_item :: "string \<Rightarrow> string \<Rightarrow> ProviderItem" where
  "sample_item u src = \<lparr> item_title = ''Headline'', item_description = ''Summary'',
     item_body = ''Body'', item_url = u, item_image_url = None, item_author = None,
     item_source = src, item_category = ''politics'', item_published_at = ''2025-01-01T00:00:00Z'' \<rparr>"

definition sample_provider :: provider where
  "sample_provider category max_articles =
     Inr [sample_item ''https://a.example/1'' ''Wire'', sample_item ''https://a.example/2'' ''Post'',
          sample_item ''https://a.example/1'' ''Wire'']"

definition seeded_storage :: Storage where
  "seeded_storage = \<lparr> article_rows = [], source_rows = [],
     category_rows = [''general'', ''politics'', ''technology'', ''business''] \<rparr>"

definition stored_once :: Storage where
  "stored_once = \<lparr> article_rows = [row_of (sample_item ''https://a.example/1'' ''Wire''),
                                     row_of (sample_item ''https://a.example/2'' ''Post'')],
     source_rows = [''Wire'', ''Post''],
     category_rows = [''general'', ''politics'', ''technology'', ''business''] \<rparr>"


definition st_selected :: AppState where
  "st_selected = st0 \<lparr> selectedAnalysis := Some sample_analysis \<rparr>"



section \<open>Properties of the API client\<close>

lemmas api_defs =
  authAPI_login_def authAPI_register_def authAPI_logout_def authAPI_getCurrentUser_def
  authAPI_getDashboard_def newsAPI_getArticles_def newsAPI_getArticle_def
  newsAPI_getCategories_def newsAPI_getCategoriesWithCounts_def newsAPI_getTrending_def
  newsAPI_markAsRead_def newsAPI_fetchLatest_def analysisAPI_getAnalyses_def
  analysisAPI_getAnalysis_def analysisAPI_analyzeArticle_def analysisAPI_getStats_def
  analysisAPI_getTrendingTopics_def analysisAPI_getRecent_def analysisAPI_getControversial_def
  profileAPI_getProfile_def profileAPI_updateProfile_def profileAPI_getStats_def
  profileAPI_changePassword_def

lemmas client_defs =
  apiClient_get_def apiClient_post_def apiClient_patch_def mergeConfig_def apiClient_def
  no_config_def with_params_def

lemma request_interceptor_timeout:
  "req_timeout (request_interceptor cookie r) = req_timeout r"
  by (simp add: request_interceptor_def split: option.split)

lemma request_interceptor_withCredentials:
  "req_withCredentials (request_interceptor cookie r) = req_withCredentials r"
  by (simp add: request_interceptor_def split: option.split)

lemma issue_timeout: "req_timeout (issue c) = 120000"
  by (cases c) (simp_all add: api_defs client_defs)

lemma issue_withCredentials: "req_withCredentials (issue c)"
  by (cases c) (simp_all add: api_defs client_defs)

text \<open>
  C6. Every request that goes through the client, whichever of the methods of authAPI,
  newsAPI, analysisAPI and profileAPI builds it and whatever the cookies are, carries the
  timeout of 120000 milliseconds: no method overrides the instance default and the
  request interceptor does not touch it.
\<close>

theorem every_request_timeout_120000:
  "req_timeout (send cookie c) = 120000"
  by (simp add: send_def request_interceptor_timeout issue_timeout)

theorem every_request_timeout_120000_witness:
  "req_timeout (send ''sessionid=abc; csrftoken=tok'' (AnalyzeArticle 7)) = 120000"
  using every_request_timeout_120000 [of "''sessionid=abc; csrftoken=tok''" "AnalyzeArticle 7"]
  by simp

text \<open>
  C10. \<^verbatim>\<open>newsAPI.fetchLatest\<close> with \<^verbatim>\<open>max_articles\<close> omitted sends
  \<^verbatim>\<open>max_articles = 50\<close> in the request body, and with \<^verbatim>\<open>max_articles = 0\<close> it sends 50
  as well: the default stands in for every falsy value.
\<close>

theorem fetchLatest_falsy_max_articles_sends_50:
  "field (req_data (send cookie (FetchLatest category None))) ''max_articles'' = Num 50 \<and>
   field (req_data (send cookie (FetchLatest category (Some 0)))) ''max_articles'' = Num 50"
  by (simp add: send_def request_interceptor_def newsAPI_fetchLatest_def apiClient_post_def
      mergeConfig_def or_default_def split: option.split)

theorem fetchLatest_falsy_max_articles_sends_50_witness:
  "field (req_data (send ''csrftoken=tok'' (FetchLatest (Some ''politics'') None))) ''max_articles''
     = Num 50 \<and>
   field (req_data (send ''csrftoken=tok'' (FetchLatest (Some ''politics'') (Some 0)))) ''max_articles''
     = Num 50"
  using fetchLatest_falsy_max_articles_sends_50 [of "''csrftoken=tok''" "Some ''politics''"]
  by simp

lemma fetchLatest_explicit_max_articles:
  "n \<noteq> 0 \<Longrightarrow>
   field (req_data (send cookie (FetchLatest category (Some n)))) ''max_articles'' = Num n"
  by (simp add: send_def request_interceptor_def newsAPI_fetchLatest_def apiClient_post_def
      mergeConfig_def or_default_def split: option.split)

section \<open>Properties of the request interceptor\<close>

subsection \<open>Splitting a joined string\<close>

lemma split_from_sep_free:
  "d \<notin> set r \<Longrightarrow> split_from (d # ds) r = [r]"
  by (induction r) (auto simp: startsWith_def)

lemma split_from_first:
  "d \<notin> set r \<Longrightarrow> split_from (d # ds) (r @ (d # ds) @ s) = r # split_from (d # ds) s"
  by (induction r) (auto simp: startsWith_def)

lemma split_from_nonempty: "split_from sep s \<noteq> []"
  by (induction sep s rule: split_from.induct) (auto split: list.splits)

lemma split_from_head:
  "hd (split_from [d] v) = takeWhile (\<lambda>c. c \<noteq> d) v"
  by (induction v) (auto simp: startsWith_def split_from_nonempty split: list.splits)

lemma split_from_join:
  "rows \<noteq> [] \<Longrightarrow> \<forall>r \<in> set rows. d \<notin> set r \<Longrightarrow>
   split_from (d # ds) (join_js rows (d # ds)) = rows"
proof (induction rows "d # ds" rule: join_js.induct)
  case 1
  then show ?case by simp
next
  case (2 x)
  then show ?case by (simp add: split_from_sep_free)
next
  case (3 x y ys)
  then show ?case using split_from_first [of d x ds "join_js (y # ys) (d # ds)"] by simp
qed

subsection \<open>Finding the csrftoken row\<close>

lemma startsWith_name:
  "CHR ''='' \<notin> set n \<Longrightarrow> CHR ''='' \<notin> set p \<Longrightarrow>
   startsWith (n @ ''='' @ v) (p @ ''='') \<longleftrightarrow> n = p"
proof (induction n arbitrary: p)
  case Nil
  then show ?case by (cases p) (auto simp: startsWith_def)
next
  case (Cons a n)
  then show ?case by (cases p) (auto simp: startsWith_def)
qed

lemma startsWith_set: "startsWith s p \<Longrightarrow> set p \<subseteq> set s"
proof -
  assume "startsWith s p"
  then have "set p = set (take (length p) s)" by (simp add: startsWith_def)
  then show ?thesis using set_take_subset [of "length p" s] by simp
qed

lemma find_csrf_row:
  "wf_jar jar \<Longrightarrow>
   find (\<lambda>row. startsWith row ''csrftoken='') (map render_cookie jar) =
   map_option (\<lambda>v. ''csrftoken='' @ v) (map_of jar ''csrftoken'')"
proof (induction jar)
  case Nil
  then show ?case by simp
next
  case (Cons p jar)
  obtain n v where p: "p = (n, v)" by (cases p)
  from Cons.prems have n: "CHR ''='' \<notin> set n" and rest: "wf_jar jar"
    and nameless: "n \<noteq> [] \<or> CHR ''='' \<notin> set v"
    by (simp_all add: wf_jar_def wf_cookie_def p)
  show ?case
  proof (cases "n = []")
    case True
    with nameless have "CHR ''='' \<notin> set v" by simp
    then have "\<not> startsWith v ''csrftoken=''"
      using startsWith_set [of v "''csrftoken=''"] by auto
    then show ?thesis using Cons.IH [OF rest] True by (simp add: p render_cookie_def)
  next
    case False
    have "startsWith (n @ ''='' @ v) (''csrftoken'' @ ''='') \<longleftrightarrow> n = ''csrftoken''"
      using n by (intro startsWith_name) simp_all
    then show ?thesis using Cons.IH [OF rest] False by (auto simp: p render_cookie_def)
  qed
qed

lemma csrfToken_document_cookie:
  assumes "wf_jar jar"
  shows "csrfToken (document_cookie jar) =
     map_option (takeWhile (\<lambda>c. c \<noteq> CHR ''='')) (map_of jar ''csrftoken'')"
proof -
  have rows: "find (\<lambda>row. startsWith row ''csrftoken='') (split_js (document_cookie jar) ''; '') =
     map_option (\<lambda>v. ''csrftoken='' @ v) (map_of jar ''csrftoken'')"
  proof (cases "jar = []")
    case True
    then show ?thesis
      by (simp add: document_cookie_def split_js_def startsWith_def)
  next
    case False
    have "\<forall>r \<in> set (map render_cookie jar). CHR '';'' \<notin> set r"
      using assms by (auto simp: wf_jar_def wf_cookie_def render_cookie_def list_all_iff)
    then have "split_from ''; '' (join_js (map render_cookie jar) ''; '') = map render_cookie jar"
      using False by (intro split_from_join) simp_all
    then show ?thesis
      using find_csrf_row [OF assms] by (simp add: document_cookie_def split_js_def)
  qed
  have tok: "nth_opt (split_js (''csrftoken='' @ v) ''='') 1 = Some (takeWhile (\<lambda>c. c \<noteq> CHR ''='') v)" for v
  proof -
    have "split_from ''='' (''csrftoken'' @ ''='' @ v) = ''csrftoken'' # split_from ''='' v"
      by (intro split_from_first) simp
    moreover obtain w ws where "split_from ''='' v = w # ws"
      using split_from_nonempty [of "''=''" v] by (cases "split_from ''='' v") auto
    moreover from this have "w = takeWhile (\<lambda>c. c \<noteq> CHR ''='') v"
      using split_from_head [of "CHR ''=''" v] by simp
    ultimately show ?thesis by (simp add: split_js_def nth_opt_def)
  qed
  show ?thesis
    unfolding csrfToken_def rows using tok by (cases "map_of jar ''csrftoken''") simp_all
qed

lemma issue_no_csrf_header: "req_headers (issue c) ''X-CSRFToken'' = None"
  by (cases c) (simp_all add: api_defs client_defs)

lemma csrf_header:
  assumes "wf_jar jar"
  shows "req_headers (send (document_cookie jar) c) ''X-CSRFToken'' =
     (case map_of jar ''csrftoken'' of
        None \<Rightarrow> None
      | Some v \<Rightarrow> let t = takeWhile (\<lambda>c. c \<noteq> CHR ''='') v in if t = [] then None else Some t)"
  by (simp add: send_def request_interceptor_def csrfToken_document_cookie [OF assms]
      issue_no_csrf_header Let_def split: option.split)

lemma send_withCredentials: "req_withCredentials (send cookie c)"
  by (simp add: send_def request_interceptor_withCredentials issue_withCredentials)

text \<open>
  C7, as the code has it. Every request carries \<^verbatim>\<open>withCredentials = true\<close>, whatever the
  cookie string. The header follows the first csrftoken cookie of a well-formed jar, when
  its value holds no \<^verbatim>\<open>=\<close>: if that value is not empty, the request carries an
  X-CSRFToken header equal to it; if there is no csrftoken cookie, or the value of the
  first one is empty, the header is not set.
\<close>

theorem csrf_header_from_cookie:
  "req_withCredentials (send cookie c) \<and>
   (wf_jar jar \<and> token_without_equals jar \<longrightarrow>
      req_headers (send (document_cookie jar) c) ''X-CSRFToken'' =
        (case map_of jar ''csrftoken'' of
           None \<Rightarrow> None
         | Some v \<Rightarrow> if v = [] then None else Some v))"
proof (intro conjI impI)
  show "req_withCredentials (send cookie c)" by (rule send_withCredentials)
next
  assume "wf_jar jar \<and> token_without_equals jar"
  then have wf: "wf_jar jar" and tok: "token_without_equals jar" by simp_all
  show "req_headers (send (document_cookie jar) c) ''X-CSRFToken'' =
        (case map_of jar ''csrftoken'' of
           None \<Rightarrow> None
         | Some v \<Rightarrow> if v = [] then None else Some v)"
  proof (cases "map_of jar ''csrftoken''")
    case None
    then show ?thesis by (simp add: csrf_header [OF wf])
  next
    case (Some v)
    then have tw: "takeWhile (\<lambda>c. c \<noteq> CHR ''='') v = v"
      using tok by (auto simp: token_without_equals_def)
    have hdr: "req_headers (send (document_cookie jar) c) ''X-CSRFToken'' =
        (if takeWhile (\<lambda>c. c \<noteq> CHR ''='') v = [] then None
         else Some (takeWhile (\<lambda>c. c \<noteq> CHR ''='') v))"
      by (simp add: csrf_header [OF wf] Some Let_def)
    show ?thesis unfolding hdr tw by (simp add: Some)
  qed
qed

theorem csrf_header_from_cookie_witness:
  "req_withCredentials (send ''sessionid=abc'' (AnalyzeArticle 7)) \<and>
   document_cookie [(''sessionid'', ''abc''), (''csrftoken'', ''tok123''), (''csrftoken'', ''old'')]
     = ''sessionid=abc; csrftoken=tok123; csrftoken=old'' \<and>
   req_headers (send ''sessionid=abc; csrftoken=tok123; csrftoken=old'' (AnalyzeArticle 7))
     ''X-CSRFToken'' = Some ''tok123'' \<and>
   req_headers (send (document_cookie [([], ''bare''), (''sessionid'', ''abc'')]) (AnalyzeArticle 7))
     ''X-CSRFToken'' = None \<and>
   req_headers (send (document_cookie [(''csrftoken'', []), (''csrftoken'', ''abc'')]) (AnalyzeArticle 7))
     ''X-CSRFToken'' = None"
  using csrf_header_from_cookie
      [where cookie = "''sessionid=abc''" and c = "AnalyzeArticle 7"
         and jar = "[(''sessionid'', ''abc''), (''csrftoken'', ''tok123''), (''csrftoken'', ''old'')]"]
    csrf_header_from_cookie
      [where cookie = "''sessionid=abc''" and c = "AnalyzeArticle 7"
         and jar = "[([], ''bare''), (''sessionid'', ''abc'')]"]
    csrf_header_from_cookie
      [where cookie = "''sessionid=abc''" and c = "AnalyzeArticle 7"
         and jar = "[(''csrftoken'', []), (''csrftoken'', ''abc'')]"]
  by (simp add: wf_jar_def wf_cookie_def token_without_equals_def document_cookie_def
      render_cookie_def)

text \<open>
  C7 as stated fails where the csrftoken cookie is present with an empty value: the
  cookie string is \<^verbatim>\<open>csrftoken=\<close>, the token read from it is the empty string, the guard
  \<^verbatim>\<open>if (csrfToken)\<close> rejects it, and no X-CSRFToken header is set.
\<close>

theorem csrf_header_empty_value_counterexample:
  "map_of [(''csrftoken'', [])] ''csrftoken'' = Some [] \<and>
   document_cookie [(''csrftoken'', [])] = ''csrftoken='' \<and>
   req_headers (send (document_cookie [(''csrftoken'', [])]) Logout) ''X-CSRFToken'' = None"
  by (simp add: document_cookie_def render_cookie_def send_def request_interceptor_def csrfToken_def
      split_js_def startsWith_def nth_opt_def authAPI_logout_def client_defs)

text \<open>
  A value that holds \<^verbatim>\<open>=\<close> is cut at the first one, since \<^verbatim>\<open>split('=')[1]\<close> keeps the
  second piece only.
\<close>

lemma csrf_header_truncated_at_equals:
  "req_headers (send (document_cookie [(''csrftoken'', ''ab=cd'')]) Logout) ''X-CSRFToken'' = Some ''ab''"
  by (simp add: document_cookie_def render_cookie_def send_def request_interceptor_def csrfToken_def
      split_js_def startsWith_def nth_opt_def authAPI_logout_def client_defs)

section \<open>Properties of the response interceptor and of logout\<close>

text \<open>
  C8. For a response with status 401 to any call, the response interceptor removes the
  \<^verbatim>\<open>user\<close> entry of localStorage and assigns \<^verbatim>\<open>/login\<close> to the location, and hands the
  same rejection on to the caller, who continues in the browser state so changed. The
  router has the single route \<^verbatim>\<open>/\<close>, so \<^verbatim>\<open>/login\<close> is not one of its routes.
\<close>

theorem unauthorized_clears_user_and_goes_to_login:
  assumes "response_status e = Some 401"
  shows "(case apiClient_request c (Rejected e) b of
            (b', r) \<Rightarrow>
              r = Rejected e \<and>
              localStorage b' = (localStorage b)(''user'' := None) \<and>
              localStorage b' ''user'' = None \<and>
              location_href b' = ''/login'' \<and>
              network b' = network b @ [c]) \<and>
         routes = [''/''] \<and> ''/login'' \<notin> set routes"
  using assms
  by (simp add: apiClient_request_def response_interceptor_def removeItem_def routes_def)

theorem unauthorized_clears_user_and_goes_to_login_witness:
  "(case apiClient_request GetCurrentUser (Rejected unauthorized :: unit settled) b0 of
      (b', r) \<Rightarrow>
        r = Rejected unauthorized \<and>
        localStorage b' ''user'' = None \<and>
        location_href b' = ''/login'') \<and>
   localStorage b0 ''user'' = Some ''{}'' \<and> location_href b0 = ''/'' \<and>
   ''/login'' \<notin> set routes"
  using unauthorized_clears_user_and_goes_to_login [where 'a = unit and e = unauthorized and c = GetCurrentUser and b = b0]
  by (auto simp: b0_def unauthorized_def split: prod.splits)

lemma other_errors_pass_through:
  "response_status e \<noteq> Some 401 \<Longrightarrow>
   apiClient_request c (Rejected e) b = (b \<lparr> network := network b @ [c] \<rparr>, Rejected e)"
  by (simp add: apiClient_request_def response_interceptor_def)

text \<open>
  C9. \<^verbatim>\<open>logout()\<close> never rejects: whatever the server's logout request settles to, the
  promise of \<^verbatim>\<open>logout()\<close> resolves, and then the user is null, \<^verbatim>\<open>isAuthenticated\<close> is
  false and localStorage has no \<^verbatim>\<open>user\<close> entry.
\<close>

theorem logout_never_rejects:
  "snd (logout raw (s, b)) = Resolved () \<and>
   user (fst (fst (logout raw (s, b)))) = None \<and>
   \<not> isAuthenticated (fst (fst (logout raw (s, b)))) \<and>
   localStorage (snd (fst (logout raw (s, b)))) ''user'' = None"
  by (cases raw)
     (simp_all add: logout_def apiClient_request_def response_interceptor_def isAuthenticated_def
        removeItem_def console_error_def Let_def split: prod.split)

theorem logout_never_rejects_witness:
  "snd (logout (Rejected server_error) (\<lparr> user = Some u0, auth_isLoading = False \<rparr>, b0)) = Resolved () \<and>
   \<not> isAuthenticated
       (fst (fst (logout (Rejected server_error) (\<lparr> user = Some u0, auth_isLoading = False \<rparr>, b0)))) \<and>
   localStorage
       (snd (fst (logout (Rejected server_error) (\<lparr> user = Some u0, auth_isLoading = False \<rparr>, b0))))
       ''user'' = None \<and>
   isAuthenticated \<lparr> user = Some u0, auth_isLoading = False \<rparr> \<and>
   localStorage b0 ''user'' = Some ''{}''"
  using logout_never_rejects
    [where raw = "Rejected server_error" and b = b0
       and s = "\<lparr> user = Some u0, auth_isLoading = False \<rparr>"]
  by (simp add: isAuthenticated_def b0_def)

section \<open>Properties of the handlers\<close>

text \<open>
  C3, as the code has it. When the analyze-article request of a signed-in user is
  rejected (whatever the rejection: no response, a timeout, an HTTP error status), or
  resolves with a body of \<^verbatim>\<open>null\<close>, the handler leaves the one message
  \<^verbatim>\<open>Failed to analyze article. Please try again.\<close> in the error state, has made the one
  request and no other, leaves the selected analysis and the article list (so every
  \<^verbatim>\<open>has_analysis\<close> flag) as they were, and resets \<^verbatim>\<open>isAnalyzing\<close> to false and
  \<^verbatim>\<open>analyzingArticleId\<close> to null.
\<close>

theorem failed_analysis_reports_once_and_changes_nothing:
  assumes "failed_request raw"
  shows "(case handleAnalyzeArticle (Some u) article raw (st, b) of
            (st', b') \<Rightarrow>
              error st' = Some ''Failed to analyze article. Please try again.'' \<and>
              network b' = network b @ [AnalyzeArticle (article_id article)] \<and>
              selectedAnalysis st' = selectedAnalysis st \<and>
              articles st' = articles st \<and>
              map has_analysis (articles st') = map has_analysis (articles st) \<and>
              isAnalyzing st' = False \<and>
              analyzingArticleId st' = None)"
  using assms
  by (auto simp: failed_request_def handleAnalyzeArticle_def handleAnalyzeArticle_catch_def
      apiClient_request_def response_interceptor_def console_error_def removeItem_def Let_def
      split: settled.splits option.splits prod.splits)

theorem failed_analysis_reports_once_and_changes_nothing_witness:
  "(case handleAnalyzeArticle (Some u0) (sample_article 1 ''https://a.example/1'')
           (Rejected server_error) (st0, b0) of
      (st', b') \<Rightarrow>
        error st' = Some ''Failed to analyze article. Please try again.'' \<and>
        network b' = [AnalyzeArticle 1] \<and>
        selectedAnalysis st' = None \<and>
        map has_analysis (articles st') = [False, False] \<and>
        isAnalyzing st' = False \<and>
        analyzingArticleId st' = None)"
  using failed_analysis_reports_once_and_changes_nothing
    [where raw = "Rejected server_error" and u = u0 and st = st0 and b = b0
       and article = "sample_article 1 ''https://a.example/1''"]
  by (auto simp: failed_request_def st0_def b0_def sample_article_def split: prod.splits)

text \<open>
  C3 as stated fails on a malformed response that arrives with a success status: a body
  that carries no \<^verbatim>\<open>analysis\<close> is not a rejection, so the handler reports no error,
  replaces the selected analysis by the missing one and flags the article as analyzed.
\<close>

theorem body_without_analysis_counterexample:
  "selectedAnalysis st_selected = Some sample_analysis \<and>
   map has_analysis (articles st_selected) = [False, False] \<and>
   error (fst (handleAnalyzeArticle (Some u0) (sample_article 1 ''https://a.example/1'')
       (Resolved (Some \<lparr> analysis = None \<rparr>)) (st_selected, b0))) = None \<and>
   selectedAnalysis (fst (handleAnalyzeArticle (Some u0) (sample_article 1 ''https://a.example/1'')
       (Resolved (Some \<lparr> analysis = None \<rparr>)) (st_selected, b0))) = None \<and>
   map has_analysis (articles (fst (handleAnalyzeArticle (Some u0) (sample_article 1 ''https://a.example/1'')
       (Resolved (Some \<lparr> analysis = None \<rparr>)) (st_selected, b0)))) = [True, False]"
  by (simp add: handleAnalyzeArticle_def apiClient_request_def response_interceptor_def Let_def
      st_selected_def st0_def b0_def sample_article_def mark_analyzed_def)

text \<open>
  C4. On a successful analyze-article response for an article, the selected analysis
  becomes the returned one, and in the displayed list each article whose id equals that
  article's id has \<^verbatim>\<open>has_analysis\<close> set to true and nothing else changed, while every
  other article is unchanged; the list keeps its length and order.
\<close>

theorem successful_analysis_marks_only_that_article:
  "(case handleAnalyzeArticle (Some u) article (Resolved (Some d)) (st, b) of
      (st', b') \<Rightarrow>
        selectedAnalysis st' = analysis d \<and>
        length (articles st') = length (articles st) \<and>
        (\<forall>i < length (articles st).
           articles st' ! i =
             (if article_id (articles st ! i) = article_id article
              then (articles st ! i) \<lparr> has_analysis := True \<rparr>
              else articles st ! i)) \<and>
        categories st' = categories st \<and>
        error st' = None)"
  by (simp add: handleAnalyzeArticle_def apiClient_request_def response_interceptor_def Let_def
      mark_analyzed_def)

theorem successful_analysis_marks_only_that_article_witness:
  "(case handleAnalyzeArticle (Some u0) (sample_article 1 ''https://a.example/1'')
           (Resolved (Some \<lparr> analysis = Some sample_analysis \<rparr>)) (st0, b0) of
      (st', b') \<Rightarrow>
        selectedAnalysis st' = Some sample_analysis \<and>
        articles st' ! 0 = (sample_article 1 ''https://a.example/1'') \<lparr> has_analysis := True \<rparr> \<and>
        articles st' ! 1 = sample_article 2 ''https://a.example/2'' \<and>
        length (articles st') = 2)"
  using successful_analysis_marks_only_that_article
    [where u = u0 and article = "sample_article 1 ''https://a.example/1''" and st = st0 and b = b0
       and d = "\<lparr> analysis = Some sample_analysis \<rparr>"]
  by (auto simp: st0_def sample_article_def split: prod.splits)

lemma loadInitialData_success:
  "(case loadInitialData (Resolved (Some a)) (Resolved cs) (st, b) of
      (st', b') \<Rightarrow>
        articles st' = articles_of a \<and>
        categories st' = (case cs of None \<Rightarrow> [] | Some xs \<Rightarrow> xs) \<and>
        error st' = None \<and> isLoading st' = False)"
  by (simp add: loadInitialData_def apiClient_request_def response_interceptor_def Let_def)




section \<open>Properties of the sentiment triple\<close>










section \<open>Properties of Ingestion\<close>

lemma ingest_item_known:
  assumes "url_exists (item_url it) s"
  shows "article_rows (fst (ingest_item it (s, k))) = article_rows s"
    and "snd (ingest_item it (s, k)) = k"
  using assms by (simp_all add: ingest_item_def url_exists_def Let_def)

lemma ingest_item_noop:
  assumes "url_exists (item_url it) s" "item_source it \<in> set (source_rows s)"
    "item_category it \<in> set (category_rows s)"
  shows "ingest_item it (s, k) = (s, k)"
  using assms by (simp add: ingest_item_def url_exists_def resolve_or_create_def Let_def)

lemma fold_ingest_noop:
  assumes "\<forall>it \<in> set items. url_exists (item_url it) s \<and> item_source it \<in> set (source_rows s) \<and>
      item_category it \<in> set (category_rows s)"
  shows "fold ingest_item items (s, k) = (s, k)"
  using assms by (induction items) (simp_all add: ingest_item_noop)

lemma ingest_item_grows:
  assumes "ingest_item it (s, k) = (s', k')"
  shows "set (urls s) \<subseteq> set (urls s')" "set (source_rows s) \<subseteq> set (source_rows s')"
    "set (category_rows s) \<subseteq> set (category_rows s')"
    "item_url it \<in> set (urls s')" "item_source it \<in> set (source_rows s')"
    "item_category it \<in> set (category_rows s')"
    "distinct (urls s) \<Longrightarrow> distinct (urls s')"
    "length (article_rows s') + k = length (article_rows s) + k'"
  using assms
  by (auto simp: ingest_item_def url_exists_def urls_def resolve_or_create_def row_of_def Let_def
      split: if_splits)

lemma fold_ingest_grows:
  assumes "fold ingest_item items (s, k) = (s', k')"
  shows "set (urls s) \<subseteq> set (urls s') \<and> set (source_rows s) \<subseteq> set (source_rows s') \<and>
    set (category_rows s) \<subseteq> set (category_rows s') \<and>
    (\<forall>it \<in> set items. item_url it \<in> set (urls s') \<and> item_source it \<in> set (source_rows s') \<and>
       item_category it \<in> set (category_rows s')) \<and>
    (distinct (urls s) \<longrightarrow> distinct (urls s')) \<and>
    length (article_rows s') + k = length (article_rows s) + k'"
  using assms
proof (induction items arbitrary: s k)
  case Nil
  then show ?case by simp
next
  case (Cons it items)
  obtain s1 k1 where step: "ingest_item it (s, k) = (s1, k1)"
    by (cases "ingest_item it (s, k)")
  with Cons.prems have rest: "fold ingest_item items (s1, k1) = (s', k')" by simp
  note g = ingest_item_grows [OF step] and ih = Cons.IH [OF rest]
  show ?case
  proof (intro conjI ballI)
    show "set (urls s) \<subseteq> set (urls s')" using g(1) ih by blast
    show "set (source_rows s) \<subseteq> set (source_rows s')" using g(2) ih by blast
    show "set (category_rows s) \<subseteq> set (category_rows s')" using g(3) ih by blast
    show "distinct (urls s) \<longrightarrow> distinct (urls s')" using g(7) ih by blast
    show "length (article_rows s') + k = length (article_rows s) + k'"
      using g(8) ih by linarith
  next
    fix x assume "x \<in> set (it # items)"
    then consider "x = it" | "x \<in> set items" by auto
    then show "item_url x \<in> set (urls s')"
      using g(4) ih by cases blast+
  next
    fix x assume "x \<in> set (it # items)"
    then consider "x = it" | "x \<in> set items" by auto
    then show "item_source x \<in> set (source_rows s')"
      using g(5) ih by cases blast+
  next
    fix x assume "x \<in> set (it # items)"
    then consider "x = it" | "x \<in> set items" by auto
    then show "item_category x \<in> set (category_rows s')"
      using g(6) ih by cases blast+
  qed
qed

lemma fold_ingest_known:
  assumes "\<forall>it \<in> set items. url_exists (item_url it) s"
    and "fold ingest_item items (s, k) = (s', k')"
  shows "article_rows s' = article_rows s \<and> k' = k"
  using assms
proof (induction items arbitrary: s k)
  case Nil
  then show ?case by simp
next
  case (Cons it items)
  obtain s1 k1 where step: "ingest_item it (s, k) = (s1, k1)"
    by (cases "ingest_item it (s, k)")
  have known: "url_exists (item_url it) s" using Cons.prems(1) by simp
  have same: "article_rows s1 = article_rows s" and count: "k1 = k"
    using ingest_item_known [OF known, of k] step by simp_all
  have "\<forall>x \<in> set items. url_exists (item_url x) s1"
    using Cons.prems(1) same by (simp add: url_exists_def)
  moreover have "fold ingest_item items (s1, k1) = (s', k')"
    using Cons.prems(2) step by simp
  ultimately have "article_rows s' = article_rows s1 \<and> k' = k1" by (rule Cons.IH)
  then show ?case using same count by simp
qed

lemma ingestion_keeps_urls_unique:
  assumes "ingestion provider category max_articles s = Inr (s1, created)"
    and "distinct (map row_url (article_rows s))"
  shows "distinct (map row_url (article_rows s1))"
proof -
  from assms(1) obtain items where "fold ingest_item items (s, 0) = (s1, created)"
    by (auto simp: ingestion_def store_items_def split: sum.splits)
  from fold_ingest_grows [OF this] assms(2) show ?thesis by (simp add: urls_def)
qed

lemma reachable_urls_unique:
  "reachable s \<Longrightarrow> distinct (map row_url (article_rows s))"
proof (induction rule: reachable.induct)
  case (initial s)
  then show ?case by simp
next
  case (run s provider category max_articles s' created)
  then show ?case using ingestion_keeps_urls_unique by blast
qed

text \<open>
  C1. Ingestion is idempotent by canonical URL. After a successful run of Ingestion on
  any storage, running it again on the same provider answer leaves storage as the first
  run left it and creates zero rows; the count the run returned is the number of Article
  rows it added; an item whose URL already exists in storage adds no row and does not
  raise the count, and a run all of whose items have such URLs creates zero rows.
  Article URLs are unique in every storage that normal operation
  reaches (one seeded at setup and holding no article, then written by Ingestion only),
  and a run keeps them unique wherever they were.
\<close>

theorem ingestion_idempotent_by_url:
  assumes "ingestion provider category max_articles s = Inr (s1, created)"
  shows "ingestion provider category max_articles s1 = Inr (s1, 0) \<and>
     length (article_rows s1) = length (article_rows s) + created \<and>
     (\<forall>it k. url_exists (item_url it) s \<longrightarrow>
        article_rows (fst (ingest_item it (s, k))) = article_rows s \<and>
        snd (ingest_item it (s, k)) = k) \<and>
     (\<forall>items. provider category max_articles = Inr items \<longrightarrow>
        (\<forall>it \<in> set items. url_exists (item_url it) s) \<longrightarrow>
        created = 0 \<and> article_rows s1 = article_rows s) \<and>
     (distinct (map row_url (article_rows s)) \<longrightarrow> distinct (map row_url (article_rows s1))) \<and>
     (reachable s \<longrightarrow>
        reachable s1 \<and> distinct (map row_url (article_rows s)) \<and>
        distinct (map row_url (article_rows s1)))"
proof -
  from assms obtain items where p: "provider category max_articles = Inr items"
    and f: "fold ingest_item items (s, 0) = (s1, created)"
    by (auto simp: ingestion_def store_items_def split: sum.splits)
  note g = fold_ingest_grows [OF f]
  have "\<forall>it \<in> set items. url_exists (item_url it) s1 \<and> item_source it \<in> set (source_rows s1) \<and>
      item_category it \<in> set (category_rows s1)"
    using g by (simp add: url_exists_def urls_def)
  then have "fold ingest_item items (s1, 0) = (s1, 0)" by (rule fold_ingest_noop)
  then have again: "ingestion provider category max_articles s1 = Inr (s1, 0)"
    by (simp add: ingestion_def store_items_def p)
  have count: "length (article_rows s1) = length (article_rows s) + created"
    using g by simp
  have keeps: "distinct (map row_url (article_rows s1))"
    if "distinct (map row_url (article_rows s))"
    using assms that by (rule ingestion_keeps_urls_unique)
  have reach: "reachable s1 \<and> distinct (map row_url (article_rows s)) \<and>
      distinct (map row_url (article_rows s1))" if r: "reachable s"
  proof -
    have "reachable s1" using r assms by (rule reachable.run)
    then show ?thesis using r by (simp add: reachable_urls_unique)
  qed
  have all_known: "created = 0 \<and> article_rows s1 = article_rows s"
    if "provider category max_articles = Inr items'"
      and "\<forall>it \<in> set items'. url_exists (item_url it) s" for items'
  proof -
    from that(1) p have "items' = items" by simp
    with that(2) have "\<forall>it \<in> set items. url_exists (item_url it) s" by simp
    from fold_ingest_known [OF this f] show ?thesis by simp
  qed
  show ?thesis using again count keeps reach all_known by (simp add: ingest_item_known)
qed

theorem ingestion_idempotent_by_url_witness:
  "reachable seeded_storage \<and>
   ingestion sample_provider None 50 seeded_storage = Inr (stored_once, 2) \<and>
   map row_url (article_rows stored_once) = [''https://a.example/1'', ''https://a.example/2''] \<and>
   reachable stored_once \<and>
   distinct (map row_url (article_rows stored_once)) \<and>
   ingestion sample_provider None 50 stored_once = Inr (stored_once, 0) \<and>
   length (article_rows stored_once) = length (article_rows seeded_storage) + 2"
proof -
  have seeded: "reachable seeded_storage"
    by (rule reachable.initial) (simp add: seeded_storage_def)
  have first_run: "ingestion sample_provider None 50 seeded_storage = Inr (stored_once, 2)"
    by (simp add: ingestion_def store_items_def sample_provider_def ingest_item_def
        url_exists_def resolve_or_create_def seeded_storage_def stored_once_def row_of_def
        sample_item_def Let_def)
  have urls: "map row_url (article_rows stored_once) = [''https://a.example/1'', ''https://a.example/2'']"
    by (simp add: stored_once_def row_of_def sample_item_def)
  show ?thesis
    using ingestion_idempotent_by_url [OF first_run] first_run urls seeded by simp
qed

end
